theory Spec2Isabelle
  imports Main
begin

section \<open>The hook \<open>useSupabase\<close> of \<open>src/supabase-sdk.js\<close>\<close>

text \<open>
  The module exports one React hook. Its effect runs the asynchronous routine
  \<open>setupClient\<close>: read four URL query parameters, construct a client, assign the
  session, look the installation record up, run the caller's \<open>initialize\<close> callback when
  the record is not flagged, upsert the record, and publish the outcome through four state
  setters. The routine is one \<open>try\<close>/\<open>catch\<close>/\<open>finally\<close> block without loops.

  The embedding threads an explicit system state through the routine: the chronological
  trace of the calls that leave the routine (to the client library, to the callback, to the
  state setters) and the content of the table \<open>app_installations\<close>. A \<open>throw\<close> is the
  left injection of a sum type. Every awaited promise is taken to settle, either resolved or
  rejected. The client library throws and rejects with error objects; the caller's callback
  may throw any value, \<open>null\<close> and \<open>undefined\<close> included.

  The four state cells of the hook live as long as the hook is mounted. The effect runs
  again whenever \<open>appId\<close> or \<open>initialize\<close> changes (line 75), and nothing resets a
  cell: a later activation starts from the state the previous one left.

  The hosted service is not part of the module. Its answers are modelled from what the
  calls of the source ask of it: \<open>.single()\<close> answers with the row of the key, or with
  the error code \<open>PGRST116\<close> when there is none; \<open>.upsert\<close> writes the row of the key;
  each request may instead fail, as the \<open>world\<close> of the activation says.
\<close>

subsection \<open>Data\<close>

text \<open>
  The values that reach \<open>catch (err)\<close>: the \<open>Error\<close> of line 28, the
  \<open>ReferenceError\<close> of an unbound identifier, the error object of a response
  (\<open>installError\<close>, \<open>upsertError\<close>, identified by its \<open>code\<close>), and whatever a
  collaborator rejects with.
\<close>

datatype err =
    MissingParameters
  | ReferenceError string
  | ResponseError string
  | Thrown string

text \<open>
  What \<open>catch (err)\<close> receives: an error object, or \<open>None\<close> for a thrown
  \<open>null\<close> or \<open>undefined\<close>.
\<close>

type_synonym thrown = "err option"

text \<open>The object returned by \<open>createClient\<close>; \<open>auth.setSession\<close> fills \<open>session\<close>.\<close>

record client =
  client_url :: string
  client_key :: string
  session :: "(string \<times> string) option"

text \<open>
  The table \<open>app_installations\<close>, keyed by \<open>app_id\<close>; the value is the column
  \<open>initialized\<close> of the row, \<open>None\<close> for SQL NULL.
\<close>

type_synonym installations = "string \<rightharpoonup> bool option"

text \<open>The four \<open>useState\<close> cells of lines 11 to 14; \<open>None\<close> is \<open>null\<close>.\<close>

record hook_state =
  supabase :: "client option"
  error :: thrown
  loading :: bool
  isInitialized :: bool

text \<open>The calls that leave \<open>setupClient\<close>, in the order of the source.\<close>

datatype event =
    CreateClient string string
  | SetSession client string string
  | SelectSingle client string
  | Initialize client
  | Upsert client string
  | SetIsInitialized bool
  | SetSupabase client
  | SetError thrown
  | SetLoading bool

text \<open>
  The argument of \<open>useSupabase\<close>: \<open>{appId, initialize = defaultInitialize}\<close>. The
  callback receives the client, through which it may write the table; it returns or throws.
\<close>

datatype completion = Returned | Threw thrown

type_synonym callback = "client \<Rightarrow> installations \<Rightarrow> completion \<times> installations"

record options =
  appId :: string
  initialize :: callback

text \<open>Line 4: \<open>const defaultInitialize = async () => {}\<close>.\<close>

definition defaultInitialize :: callback where
  "defaultInitialize c t = (Returned, t)"

text \<open>
  How a request to the hosted service can go wrong: the awaited promise rejects, or it
  resolves to a response whose \<open>error\<close> field is set.
\<close>

datatype fault = Rejection err | ErrorReply string

text \<open>
  What one activation finds around it: the parsed query string of
  \<open>window.location.search\<close>, the bindings of the global environment, the error that
  \<open>createClient\<close> throws when it refuses its arguments, and the faults of the three
  requests. \<open>auth.setSession\<close> resolves to \<open>{data, error}\<close> like the other two
  requests, or rejects. The module declares \<open>appId\<close> (a parameter of the hook) but line 40
  reads the identifier \<open>appID\<close>, which no scope of the module declares; such a read is
  resolved in the global environment (a property of \<open>window\<close>, a declaration of a script
  of the page) and throws a \<open>ReferenceError\<close> when the name has no binding there.
\<close>

record world =
  query :: "(string \<times> string) list"
  globals :: "string \<rightharpoonup> string"
  createClient_fault :: "err option"
  setSession_fault :: "fault option"
  select_fault :: "fault option"
  upsert_fault :: "fault option"

record sys =
  trace :: "event list"
  store :: installations

definition fresh :: "installations \<Rightarrow> sys" where
  "fresh t = \<lparr>trace = [], store = t\<rparr>"

definition emit :: "event \<Rightarrow> sys \<Rightarrow> sys" where
  "emit e s = s\<lparr>trace := trace s @ [e]\<rparr>"

text \<open>Sequencing inside the \<open>try\<close> block: a thrown error skips what follows.\<close>

definition andThen ::
  "(thrown + 'a) \<times> sys \<Rightarrow> ('a \<Rightarrow> sys \<Rightarrow> (thrown + 'b) \<times> sys)
     \<Rightarrow> (thrown + 'b) \<times> sys" where
  "andThen m f = (case m of (Inl v, s) \<Rightarrow> (Inl v, s) | (Inr x, s) \<Rightarrow> f x s)"

text \<open>An error object that is thrown is a thrown value that is not null.\<close>

definition raised :: "err + 'a \<Rightarrow> thrown + 'a" where
  "raised r = (case r of Inl e \<Rightarrow> Inl (Some e) | Inr x \<Rightarrow> Inr x)"

subsection \<open>Lines 20 to 29: the query parameters\<close>

text \<open>\<open>URLSearchParams.get\<close>: the first value bound to the name, or \<open>null\<close>.\<close>

definition get :: "(string \<times> string) list \<Rightarrow> string \<Rightarrow> string option" where
  "get q n = map_of q n"

text \<open>The operand of \<open>!\<close> at line 27 is \<open>null\<close> or a string; both \<open>null\<close> and the
  empty string are falsy.\<close>

fun falsy :: "string option \<Rightarrow> bool" where
  "falsy None = True"
| "falsy (Some s) = (s = [])"

fun str :: "string option \<Rightarrow> string" where
  "str None = []"
| "str (Some s) = s"

record credentials =
  supabaseUrl :: string
  supabaseKey :: string
  accessToken :: string
  refreshToken :: string

definition read_parameters :: "(string \<times> string) list \<Rightarrow> err + credentials" where
  "read_parameters q =
     (let url = get q ''supabaseUrl'';
          key = get q ''supabaseKey'';
          access = get q ''accessToken'';
          refresh = get q ''refreshToken''
      in if falsy url \<or> falsy key \<or> falsy access \<or> falsy refresh
         then Inl MissingParameters
         else Inr \<lparr>supabaseUrl = str url, supabaseKey = str key,
                   accessToken = str access, refreshToken = str refresh\<rparr>)"

subsection \<open>Lines 32 to 38: the client and its session\<close>

text \<open>
  Line 35 awaits \<open>setSession\<close> and drops what it resolves to: when the service refuses
  the tokens the promise resolves with \<open>error\<close> set, no session is assigned, and the
  routine goes on with the client as \<open>createClient\<close> returned it. Only a rejection
  reaches \<open>catch\<close>.
\<close>

definition createClient :: "string \<Rightarrow> string \<Rightarrow> client" where
  "createClient url key = \<lparr>client_url = url, client_key = key, session = None\<rparr>"

definition open_session :: "world \<Rightarrow> credentials \<Rightarrow> sys \<Rightarrow> (thrown + client) \<times> sys" where
  "open_session w cr s =
     (let s1 = emit (CreateClient (supabaseUrl cr) (supabaseKey cr)) s
      in case createClient_fault w of
           Some e \<Rightarrow> (Inl (Some e), s1)
         | None \<Rightarrow>
             (let c = createClient (supabaseUrl cr) (supabaseKey cr);
                  s2 = emit (SetSession c (accessToken cr) (refreshToken cr)) s1
              in case setSession_fault w of
                   Some (Rejection e) \<Rightarrow> (Inl (Some e), s2)
                 | Some (ErrorReply code) \<Rightarrow> (Inr c, s2)
                 | None \<Rightarrow>
                     (Inr (c\<lparr>session := Some (accessToken cr, refreshToken cr)\<rparr>), s2)))"

subsection \<open>Lines 40 to 45: the installation record\<close>

text \<open>
  The response of \<open>.select('initialized').eq('app_id', k).single()\<close>: the row when there
  is one, and the error with code \<open>PGRST116\<close> when there is none.
\<close>

record response =
  data :: "bool option option"
  reply_error :: "string option"

definition single :: "world \<Rightarrow> installations \<Rightarrow> string \<Rightarrow> err + response" where
  "single w t k =
     (case select_fault w of
        Some (Rejection e) \<Rightarrow> Inl e
      | Some (ErrorReply code) \<Rightarrow> Inr \<lparr>data = None, reply_error = Some code\<rparr>
      | None \<Rightarrow>
          (case t k of
             None \<Rightarrow> Inr \<lparr>data = None, reply_error = Some ''PGRST116''\<rparr>
           | Some row \<Rightarrow> Inr \<lparr>data = Some row, reply_error = None\<rparr>))"

text \<open>\<open>installData?.initialized || false\<close>.\<close>

fun initialized_of :: "bool option option \<Rightarrow> bool" where
  "initialized_of (Some (Some b)) = b"
| "initialized_of _ = False"

text \<open>
  The arguments of \<open>.eq\<close> are evaluated before the request is built and awaited, so an
  unbound \<open>appID\<close> throws before any request leaves.
\<close>

definition lookup_installation :: "world \<Rightarrow> client \<Rightarrow> sys \<Rightarrow> (thrown + bool) \<times> sys" where
  "lookup_installation w c s =
     (case globals w ''appID'' of
        None \<Rightarrow> (Inl (Some (ReferenceError ''appID'')), s)
      | Some k \<Rightarrow>
          (let s1 = emit (SelectSingle c k) s
           in case single w (store s1) k of
                Inl e \<Rightarrow> (Inl (Some e), s1)
              | Inr r \<Rightarrow>
                  (case reply_error r of
                     Some code \<Rightarrow>
                       if code \<noteq> ''PGRST116'' then (Inl (Some (ResponseError code)), s1)
                       else (Inr (initialized_of (data r)), s1)
                   | None \<Rightarrow> (Inr (initialized_of (data r)), s1))))"

subsection \<open>Lines 47 to 61: the callback and the upsert\<close>

text \<open>
  \<open>.upsert({app_id: appId, initialized: true}, {onConflict: 'app_id'})\<close>: the row of the
  key is written with \<open>initialized = true\<close>, unless the request fails.
\<close>

definition upsert :: "world \<Rightarrow> installations \<Rightarrow> string \<Rightarrow> err + string option \<times> installations" where
  "upsert w t k =
     (case upsert_fault w of
        Some (Rejection e) \<Rightarrow> Inl e
      | Some (ErrorReply code) \<Rightarrow> Inr (Some code, t)
      | None \<Rightarrow> Inr (None, t(k \<mapsto> Some True)))"

definition run_initialize ::
  "world \<Rightarrow> options \<Rightarrow> client \<Rightarrow> sys \<Rightarrow> (thrown + unit) \<times> sys" where
  "run_initialize w opts c s =
     (let s1 = emit (Initialize c) s;
          (result, t1) = initialize opts c (store s1);
          s2 = s1\<lparr>store := t1\<rparr>
      in case result of
           Threw v \<Rightarrow> (Inl v, s2)
         | Returned \<Rightarrow>
             (let s3 = emit (Upsert c (appId opts)) s2
              in case upsert w (store s3) (appId opts) of
                   Inl e \<Rightarrow> (Inl (Some e), s3)
                 | Inr (upsertError, t2) \<Rightarrow>
                     (case upsertError of
                        Some code \<Rightarrow>
                          (Inl (Some (ResponseError code)), s3\<lparr>store := t2\<rparr>)
                      | None \<Rightarrow> (Inr (), emit (SetIsInitialized True) (s3\<lparr>store := t2\<rparr>)))))"

definition mark_initialized ::
  "world \<Rightarrow> options \<Rightarrow> client \<Rightarrow> bool \<Rightarrow> sys \<Rightarrow> (thrown + unit) \<times> sys" where
  "mark_initialized w opts c alreadyInitialized s =
     (if \<not> alreadyInitialized then run_initialize w opts c s
      else (Inr (), emit (SetIsInitialized True) s))"

subsection \<open>Lines 17 to 72: \<open>setupClient\<close>\<close>

definition try_block :: "world \<Rightarrow> options \<Rightarrow> sys \<Rightarrow> (thrown + unit) \<times> sys" where
  "try_block w opts s =
     andThen (raised (read_parameters (query w)), s) (\<lambda>cr s.
     andThen (open_session w cr s) (\<lambda>c s.
     andThen (lookup_installation w c s) (\<lambda>alreadyInitialized s.
     andThen (mark_initialized w opts c alreadyInitialized s) (\<lambda>_ s.
       (Inr (), emit (SetSupabase c) s)))))"

definition setupClient :: "world \<Rightarrow> options \<Rightarrow> sys \<Rightarrow> sys" where
  "setupClient w opts s =
     (case try_block w opts s of
        (Inl v, s1) \<Rightarrow> emit (SetLoading False) (emit (SetError v) s1)
      | (Inr _, s1) \<Rightarrow> emit (SetLoading False) s1)"

subsection \<open>Lines 11 to 14 and 77: the state the hook returns\<close>

definition mount :: hook_state where
  "mount = \<lparr>supabase = None, error = None, loading = True, isInitialized = False\<rparr>"

fun apply_setter :: "hook_state \<Rightarrow> event \<Rightarrow> hook_state" where
  "apply_setter st (SetIsInitialized b) = st\<lparr>isInitialized := b\<rparr>"
| "apply_setter st (SetSupabase c) = st\<lparr>supabase := Some c\<rparr>"
| "apply_setter st (SetError v) = st\<lparr>error := v\<rparr>"
| "apply_setter st (SetLoading b) = st\<lparr>loading := b\<rparr>"
| "apply_setter st _ = st"

text \<open>The successive states of the hook while a trace unfolds, the starting one first.\<close>

fun states :: "hook_state \<Rightarrow> event list \<Rightarrow> hook_state list" where
  "states st [] = [st]"
| "states st (e # es) = st # states (apply_setter st e) es"

text \<open>
  An activation: the effect runs \<open>setupClient\<close> once, against the table as it stands.
  The calls it makes do not depend on the cells of the hook. \<open>settled st\<close> is the state
  the hook is left in when the activation found it in the state \<open>st\<close>: \<open>mount\<close> for the
  first activation, the state left by the previous activation for a later one.
\<close>

definition activate :: "world \<Rightarrow> options \<Rightarrow> installations \<Rightarrow> sys" where
  "activate w opts t = setupClient w opts (fresh t)"

definition settled :: "hook_state \<Rightarrow> world \<Rightarrow> options \<Rightarrow> installations \<Rightarrow> hook_state" where
  "settled st w opts t = last (states st (trace (activate w opts t)))"

text \<open>The calls that reach a collaborator, and those that reach the callback.\<close>

fun is_external :: "event \<Rightarrow> bool" where
  "is_external (CreateClient u k) = True"
| "is_external (SetSession c a r) = True"
| "is_external (SelectSingle c k) = True"
| "is_external (Initialize c) = True"
| "is_external (Upsert c k) = True"
| "is_external _ = False"

fun is_callback :: "event \<Rightarrow> bool" where
  "is_callback (Initialize c) = True"
| "is_callback _ = False"

fun is_upsert :: "event \<Rightarrow> bool" where
  "is_upsert (Upsert c k) = True"
| "is_upsert _ = False"

fun is_select :: "event \<Rightarrow> bool" where
  "is_select (SelectSingle c k) = True"
| "is_select _ = False"


fun is_setLoading :: "event \<Rightarrow> bool" where
  "is_setLoading (SetLoading b) = True"
| "is_setLoading _ = False"

text \<open>
  The error with which a lookup that met the fault \<open>f\<close> leaves lines 40 to 43: the
  rejection itself, or the error of the response unless its code is the no-rows sentinel
  \<open>PGRST116\<close>, which line 41 lets pass.
\<close>

fun lookup_failure :: "fault \<Rightarrow> err option" where
  "lookup_failure (Rejection e) = Some e"
| "lookup_failure (ErrorReply code) =
     (if code = ''PGRST116'' then None else Some (ResponseError code))"

text \<open>The changes of value along a list of flags, as pairs (before, after).\<close>

fun flips :: "bool list \<Rightarrow> (bool \<times> bool) list" where
  "flips (a # b # bs) = (if a = b then flips (b # bs) else (a, b) # flips (b # bs))"
| "flips bs = []"

subsection \<open>Activations one after another\<close>

text \<open>
  Each activation runs to its end before the next starts and finds the table as the
  previous one left it; nothing else writes the table in between. The result is the
  concatenation of the traces.
\<close>

fun run_activations :: "installations \<Rightarrow> (world \<times> options) list \<Rightarrow> event list" where
  "run_activations t [] = []"
| "run_activations t (a # rest) =
     (let s = activate (fst a) (snd a) t
      in trace s @ run_activations (store s) rest)"

definition callback_runs :: "event list \<Rightarrow> nat" where
  "callback_runs evs = length (filter is_callback evs)"

subsection \<open>Names for the paths through \<open>setupClient\<close>\<close>

text \<open>
  The error with which \<open>setSession\<close> rejects, if it does; the client that lines 32 to 38
  hand on when it does not (with the session, or without it when the tokens were refused);
  the two calls every activation with complete parameters starts with; the verdict of lines
  40 to 45 as a function of the fault and of the table; the error thrown by a failed upsert
  (the rejection, or \<open>upsertError\<close> at line 56).
\<close>

definition session_rejection :: "world \<Rightarrow> err option" where
  "session_rejection w =
     (case setSession_fault w of
        Some (Rejection e) \<Rightarrow> Some e
      | Some (ErrorReply code) \<Rightarrow> None
      | None \<Rightarrow> None)"

definition client_of :: "world \<Rightarrow> credentials \<Rightarrow> client" where
  "client_of w cr =
     (createClient (supabaseUrl cr) (supabaseKey cr))
       \<lparr>session := (case setSession_fault w of
                      None \<Rightarrow> Some (accessToken cr, refreshToken cr)
                    | Some f \<Rightarrow> None)\<rparr>"

definition preamble :: "credentials \<Rightarrow> event list" where
  "preamble cr =
     [CreateClient (supabaseUrl cr) (supabaseKey cr),
      SetSession (createClient (supabaseUrl cr) (supabaseKey cr))
        (accessToken cr) (refreshToken cr)]"

definition lookup_verdict :: "world \<Rightarrow> installations \<Rightarrow> string \<Rightarrow> err + bool" where
  "lookup_verdict w t k =
     (case select_fault w of
        Some f \<Rightarrow> (case lookup_failure f of Some e \<Rightarrow> Inl e | None \<Rightarrow> Inr False)
      | None \<Rightarrow> Inr (initialized_of (t k)))"

fun upsert_failure :: "fault \<Rightarrow> err" where
  "upsert_failure (Rejection e) = e"
| "upsert_failure (ErrorReply code) = ResponseError code"

subsection \<open>Concrete inputs\<close>

text \<open>
  A query string with the four parameters, one without \<open>refreshToken\<close>, one whose
  \<open>accessToken\<close> is empty. A page that passes the four parameters, defines no global
  named \<open>appID\<close> and talks to a service without faults; the same page inside a host that
  does define a global \<open>appID\<close>, equal to the identifier of the app \<open>agent-chat\<close>, and
  inside a host whose global \<open>appID\<close> names another app. That host with a
  \<open>setSession\<close> that rejects, with one that resolves to a refusal, with a lookup and
  with an upsert answered by an error. The options of the README's basic example, and
  those of a second app. The client with and without the session. A callback that throws
  the value it is given, as \<open>initializeApp\<close> of the README throws the error of its
  \<open>rpc\<close>.
\<close>

abbreviation full_query :: "(string \<times> string) list" where
  "full_query \<equiv> [(''supabaseUrl'', ''https://xyz.supabase.co''), (''supabaseKey'', ''anon''),
                 (''accessToken'', ''at''), (''refreshToken'', ''rt'')]"

abbreviation no_refresh_query :: "(string \<times> string) list" where
  "no_refresh_query \<equiv> [(''supabaseUrl'', ''https://xyz.supabase.co''),
                       (''supabaseKey'', ''anon''), (''accessToken'', ''at'')]"

abbreviation empty_access_query :: "(string \<times> string) list" where
  "empty_access_query \<equiv> [(''supabaseUrl'', ''https://xyz.supabase.co''),
                         (''supabaseKey'', ''anon''), (''accessToken'', ''''),
                         (''refreshToken'', ''rt'')]"

abbreviation full_credentials :: credentials where
  "full_credentials \<equiv> \<lparr>supabaseUrl = ''https://xyz.supabase.co'', supabaseKey = ''anon'',
                        accessToken = ''at'', refreshToken = ''rt''\<rparr>"

abbreviation page :: world where
  "page \<equiv> \<lparr>query = full_query, globals = map_of [], createClient_fault = None,
            setSession_fault = None, select_fault = None, upsert_fault = None\<rparr>"

abbreviation host_page :: world where
  "host_page \<equiv> \<lparr>query = full_query, globals = map_of [(''appID'', ''agent-chat'')],
                 createClient_fault = None, setSession_fault = None, select_fault = None,
                 upsert_fault = None\<rparr>"

abbreviation host_no_refresh :: world where
  "host_no_refresh \<equiv> \<lparr>query = no_refresh_query,
                       globals = map_of [(''appID'', ''agent-chat'')],
                       createClient_fault = None, setSession_fault = None,
                       select_fault = None, upsert_fault = None\<rparr>"

abbreviation host_empty_access :: world where
  "host_empty_access \<equiv> \<lparr>query = empty_access_query,
                         globals = map_of [(''appID'', ''agent-chat'')],
                         createClient_fault = None, setSession_fault = None,
                         select_fault = None, upsert_fault = None\<rparr>"

abbreviation foreign_host :: world where
  "foreign_host \<equiv> \<lparr>query = full_query, globals = map_of [(''appID'', ''other-app'')],
                    createClient_fault = None, setSession_fault = None, select_fault = None,
                    upsert_fault = None\<rparr>"



abbreviation broken_lookup :: world where
  "broken_lookup \<equiv> \<lparr>query = full_query, globals = map_of [(''appID'', ''agent-chat'')],
                     createClient_fault = None, setSession_fault = None,
                     select_fault = Some (ErrorReply ''42501''), upsert_fault = None\<rparr>"

abbreviation failing_upsert :: world where
  "failing_upsert \<equiv> \<lparr>query = full_query, globals = map_of [(''appID'', ''agent-chat'')],
                      createClient_fault = None, setSession_fault = None, select_fault = None,
                      upsert_fault = Some (ErrorReply ''57014'')\<rparr>"

abbreviation agent_chat :: options where
  "agent_chat \<equiv> \<lparr>appId = ''agent-chat'', initialize = defaultInitialize\<rparr>"

abbreviation notes_app :: options where
  "notes_app \<equiv> \<lparr>appId = ''notes'', initialize = defaultInitialize\<rparr>"

abbreviation bare_client :: client where
  "bare_client \<equiv> \<lparr>client_url = ''https://xyz.supabase.co'', client_key = ''anon'',
                   session = None\<rparr>"

abbreviation signed_in_client :: client where
  "signed_in_client \<equiv> \<lparr>client_url = ''https://xyz.supabase.co'', client_key = ''anon'',
                        session = Some (''at'', ''rt'')\<rparr>"


section \<open>The paths through \<open>setupClient\<close>\<close>

text \<open>
  Each phase, and then the whole activation, computed under the conditions that select one
  path: a refused client, a rejected session, an unbound \<open>appID\<close>, a failed lookup, a
  record already flagged, a throwing callback, a failed upsert, and the complete run.
\<close>

lemma read_parameters_error: "read_parameters q = Inl e \<Longrightarrow> e = MissingParameters"
  by (simp add: read_parameters_def Let_def split: if_splits)

lemma open_session_refused:
  "createClient_fault w = Some e \<Longrightarrow>
   open_session w cr s =
     (Inl (Some e), s\<lparr>trace := trace s @ [CreateClient (supabaseUrl cr) (supabaseKey cr)]\<rparr>)"
  by (simp add: open_session_def emit_def Let_def)

lemma open_session_rejected:
  "createClient_fault w = None \<Longrightarrow> session_rejection w = Some e \<Longrightarrow>
   open_session w cr s = (Inl (Some e), s\<lparr>trace := trace s @ preamble cr\<rparr>)"
  by (simp add: open_session_def session_rejection_def emit_def Let_def preamble_def
      split: option.splits fault.splits)

lemma open_session_ok:
  "createClient_fault w = None \<Longrightarrow> session_rejection w = None \<Longrightarrow>
   open_session w cr s = (Inr (client_of w cr), s\<lparr>trace := trace s @ preamble cr\<rparr>)"
  by (simp add: open_session_def session_rejection_def client_of_def createClient_def
      emit_def Let_def preamble_def split: option.splits fault.splits)

lemma lookup_unbound:
  "globals w ''appID'' = None \<Longrightarrow>
   lookup_installation w c s = (Inl (Some (ReferenceError ''appID'')), s)"
  by (simp add: lookup_installation_def)

lemma lookup_bound:
  "globals w ''appID'' = Some k \<Longrightarrow>
   lookup_installation w c s =
     (raised (lookup_verdict w (store s) k), s\<lparr>trace := trace s @ [SelectSingle c k]\<rparr>)"
  by (simp add: lookup_installation_def lookup_verdict_def single_def emit_def Let_def
      raised_def split: option.splits fault.splits)

lemma run_initialize_throws:
  "initialize opts c (store s) = (Threw v, t1) \<Longrightarrow>
   run_initialize w opts c s = (Inl v, \<lparr>trace = trace s @ [Initialize c], store = t1\<rparr>)"
  by (simp add: run_initialize_def emit_def Let_def)

lemma run_initialize_upsert_fails:
  "initialize opts c (store s) = (Returned, t1) \<Longrightarrow> upsert_fault w = Some f \<Longrightarrow>
   run_initialize w opts c s =
     (Inl (Some (upsert_failure f)),
      \<lparr>trace = trace s @ [Initialize c, Upsert c (appId opts)], store = t1\<rparr>)"
  by (cases f) (simp_all add: run_initialize_def upsert_def emit_def Let_def)

lemma run_initialize_ok:
  "initialize opts c (store s) = (Returned, t1) \<Longrightarrow> upsert_fault w = None \<Longrightarrow>
   run_initialize w opts c s =
     (Inr (),
      \<lparr>trace = trace s @ [Initialize c, Upsert c (appId opts), SetIsInitialized True],
        store = t1(appId opts \<mapsto> Some True)\<rparr>)"
  by (simp add: run_initialize_def upsert_def emit_def Let_def)

lemma missing_parameters_outcome:
  assumes "read_parameters (query w) = Inl MissingParameters"
  shows "activate w opts t =
           \<lparr>trace = [SetError (Some MissingParameters), SetLoading False], store = t\<rparr>"
  using assms
  by (simp add: activate_def setupClient_def try_block_def andThen_def raised_def fresh_def
      emit_def)

lemma path_refused:
  assumes "read_parameters (query w) = Inr cr" "createClient_fault w = Some e"
  shows "activate w opts t =
    \<lparr>trace = [CreateClient (supabaseUrl cr) (supabaseKey cr), SetError (Some e),
               SetLoading False],
      store = t\<rparr>"
  using assms
  by (simp add: activate_def setupClient_def try_block_def andThen_def raised_def fresh_def
      open_session_refused emit_def)

lemma path_session:
  assumes "read_parameters (query w) = Inr cr" "createClient_fault w = None"
    "session_rejection w = Some e"
  shows "activate w opts t =
    \<lparr>trace = preamble cr @ [SetError (Some e), SetLoading False], store = t\<rparr>"
  using assms
  by (simp add: activate_def setupClient_def try_block_def andThen_def raised_def fresh_def
      open_session_rejected emit_def)

lemma path_unbound:
  assumes "read_parameters (query w) = Inr cr" "createClient_fault w = None"
    "session_rejection w = None" "globals w ''appID'' = None"
  shows "activate w opts t =
    \<lparr>trace = preamble cr @ [SetError (Some (ReferenceError ''appID'')), SetLoading False],
      store = t\<rparr>"
  using assms
  by (simp add: activate_def setupClient_def try_block_def andThen_def raised_def fresh_def
      open_session_ok lookup_unbound emit_def)

lemma path_lookup_fails:
  assumes "read_parameters (query w) = Inr cr" "createClient_fault w = None"
    "session_rejection w = None" "globals w ''appID'' = Some k"
    "lookup_verdict w t k = Inl e"
  shows "activate w opts t =
    \<lparr>trace = preamble cr @ [SelectSingle (client_of w cr) k, SetError (Some e),
                SetLoading False],
      store = t\<rparr>"
  using assms
  by (simp add: activate_def setupClient_def try_block_def andThen_def raised_def fresh_def
      open_session_ok lookup_bound emit_def)

lemma path_already:
  assumes "read_parameters (query w) = Inr cr" "createClient_fault w = None"
    "session_rejection w = None" "globals w ''appID'' = Some k"
    "lookup_verdict w t k = Inr True"
  shows "activate w opts t =
    \<lparr>trace = preamble cr @ [SelectSingle (client_of w cr) k, SetIsInitialized True,
                SetSupabase (client_of w cr), SetLoading False],
      store = t\<rparr>"
  using assms
  by (simp add: activate_def setupClient_def try_block_def andThen_def raised_def fresh_def
      open_session_ok lookup_bound mark_initialized_def emit_def)

lemma path_callback_throws:
  assumes "read_parameters (query w) = Inr cr" "createClient_fault w = None"
    "session_rejection w = None" "globals w ''appID'' = Some k"
    "lookup_verdict w t k = Inr False"
    "initialize opts (client_of w cr) t = (Threw v, t1)"
  shows "activate w opts t =
    \<lparr>trace = preamble cr @ [SelectSingle (client_of w cr) k, Initialize (client_of w cr),
                SetError v, SetLoading False],
      store = t1\<rparr>"
  using assms
  by (simp add: activate_def setupClient_def try_block_def andThen_def raised_def fresh_def
      open_session_ok lookup_bound mark_initialized_def run_initialize_throws emit_def)

lemma path_upsert_fails:
  assumes "read_parameters (query w) = Inr cr" "createClient_fault w = None"
    "session_rejection w = None" "globals w ''appID'' = Some k"
    "lookup_verdict w t k = Inr False"
    "initialize opts (client_of w cr) t = (Returned, t1)" "upsert_fault w = Some f"
  shows "activate w opts t =
    \<lparr>trace = preamble cr @ [SelectSingle (client_of w cr) k, Initialize (client_of w cr),
                Upsert (client_of w cr) (appId opts), SetError (Some (upsert_failure f)),
                SetLoading False],
      store = t1\<rparr>"
  using assms
  by (simp add: activate_def setupClient_def try_block_def andThen_def raised_def fresh_def
      open_session_ok lookup_bound mark_initialized_def run_initialize_upsert_fails emit_def)

lemma path_initialized:
  assumes "read_parameters (query w) = Inr cr" "createClient_fault w = None"
    "session_rejection w = None" "globals w ''appID'' = Some k"
    "lookup_verdict w t k = Inr False"
    "initialize opts (client_of w cr) t = (Returned, t1)" "upsert_fault w = None"
  shows "activate w opts t =
    \<lparr>trace = preamble cr @ [SelectSingle (client_of w cr) k, Initialize (client_of w cr),
                Upsert (client_of w cr) (appId opts), SetIsInitialized True,
                SetSupabase (client_of w cr), SetLoading False],
      store = t1(appId opts \<mapsto> Some True)\<rparr>"
  using assms
  by (simp add: activate_def setupClient_def try_block_def andThen_def raised_def fresh_def
      open_session_ok lookup_bound mark_initialized_def run_initialize_ok emit_def)

text \<open>Every activation takes one of nine paths.\<close>

lemma activate_paths [case_names missing refused session unbound lookup_fails already
    callback_throws upsert_fails initialized]:
  obtains
    "activate w opts t =
       \<lparr>trace = [SetError (Some MissingParameters), SetLoading False], store = t\<rparr>"
      "read_parameters (query w) = Inl MissingParameters"
  | cr e where
      "activate w opts t =
         \<lparr>trace = [CreateClient (supabaseUrl cr) (supabaseKey cr), SetError (Some e),
                    SetLoading False],
           store = t\<rparr>"
      "read_parameters (query w) = Inr cr" "createClient_fault w = Some e"
  | cr e where
      "activate w opts t =
         \<lparr>trace = preamble cr @ [SetError (Some e), SetLoading False], store = t\<rparr>"
      "read_parameters (query w) = Inr cr" "createClient_fault w = None"
      "session_rejection w = Some e"
  | cr where
      "activate w opts t =
         \<lparr>trace = preamble cr @ [SetError (Some (ReferenceError ''appID'')), SetLoading False],
           store = t\<rparr>"
      "read_parameters (query w) = Inr cr" "createClient_fault w = None"
      "session_rejection w = None" "globals w ''appID'' = None"
  | cr k e where
      "activate w opts t =
         \<lparr>trace = preamble cr @ [SelectSingle (client_of w cr) k, SetError (Some e),
                     SetLoading False],
           store = t\<rparr>"
      "read_parameters (query w) = Inr cr" "createClient_fault w = None"
      "session_rejection w = None" "globals w ''appID'' = Some k"
      "lookup_verdict w t k = Inl e"
  | cr k where
      "activate w opts t =
         \<lparr>trace = preamble cr @ [SelectSingle (client_of w cr) k, SetIsInitialized True,
                     SetSupabase (client_of w cr), SetLoading False],
           store = t\<rparr>"
      "read_parameters (query w) = Inr cr" "createClient_fault w = None"
      "session_rejection w = None" "globals w ''appID'' = Some k"
      "lookup_verdict w t k = Inr True"
  | cr k v t1 where
      "activate w opts t =
         \<lparr>trace = preamble cr @ [SelectSingle (client_of w cr) k, Initialize (client_of w cr),
                     SetError v, SetLoading False],
           store = t1\<rparr>"
      "read_parameters (query w) = Inr cr" "createClient_fault w = None"
      "session_rejection w = None" "globals w ''appID'' = Some k"
      "lookup_verdict w t k = Inr False"
      "initialize opts (client_of w cr) t = (Threw v, t1)"
  | cr k f t1 where
      "activate w opts t =
         \<lparr>trace = preamble cr @ [SelectSingle (client_of w cr) k, Initialize (client_of w cr),
                     Upsert (client_of w cr) (appId opts),
                     SetError (Some (upsert_failure f)), SetLoading False],
           store = t1\<rparr>"
      "read_parameters (query w) = Inr cr" "createClient_fault w = None"
      "session_rejection w = None" "globals w ''appID'' = Some k"
      "lookup_verdict w t k = Inr False"
      "initialize opts (client_of w cr) t = (Returned, t1)" "upsert_fault w = Some f"
  | cr k t1 where
      "activate w opts t =
         \<lparr>trace = preamble cr @ [SelectSingle (client_of w cr) k, Initialize (client_of w cr),
                     Upsert (client_of w cr) (appId opts), SetIsInitialized True,
                     SetSupabase (client_of w cr), SetLoading False],
           store = t1(appId opts \<mapsto> Some True)\<rparr>"
      "read_parameters (query w) = Inr cr" "createClient_fault w = None"
      "session_rejection w = None" "globals w ''appID'' = Some k"
      "lookup_verdict w t k = Inr False"
      "initialize opts (client_of w cr) t = (Returned, t1)" "upsert_fault w = None"
proof (cases "read_parameters (query w)")
  case (Inl e)
  then have "read_parameters (query w) = Inl MissingParameters"
    using read_parameters_error by blast
  then show ?thesis
    using that(1) missing_parameters_outcome by blast
next
  case cr: (Inr cr)
  show ?thesis
  proof (cases "createClient_fault w")
    case (Some e)
    with cr show ?thesis using that(2) path_refused by blast
  next
    case cf: None
    show ?thesis
    proof (cases "session_rejection w")
      case (Some e)
      with cr cf show ?thesis using that(3) path_session by blast
    next
      case sf: None
      show ?thesis
      proof (cases "globals w ''appID''")
        case None
        with cr cf sf show ?thesis using that(4) path_unbound by blast
      next
        case k: (Some k)
        show ?thesis
        proof (cases "lookup_verdict w t k")
          case (Inl e)
          with cr cf sf k show ?thesis using that(5) path_lookup_fails by blast
        next
          case (Inr already)
          show ?thesis
          proof (cases already)
            case True
            with Inr have "lookup_verdict w t k = Inr True" by simp
            with cr cf sf k show ?thesis using that(6) path_already by blast
          next
            case False
            with Inr have lv: "lookup_verdict w t k = Inr False" by simp
            obtain result t1 where cb: "initialize opts (client_of w cr) t = (result, t1)"
              by (cases "initialize opts (client_of w cr) t")
            show ?thesis
            proof (cases result)
              case (Threw v)
              with cr cf sf k lv cb show ?thesis
                using that(7) path_callback_throws by blast
            next
              case returned: Returned
              show ?thesis
              proof (cases "upsert_fault w")
                case (Some f)
                with cr cf sf k lv cb returned show ?thesis
                  using that(8) path_upsert_fails by blast
              next
                case None
                with cr cf sf k lv cb returned show ?thesis
                  using that(9) path_initialized by blast
              qed
            qed
          qed
        qed
      qed
    qed
  qed
qed

text \<open>The four parameters of the concrete query are all truthy.\<close>

lemma read_full_query: "read_parameters full_query = Inr full_credentials"
  by (simp add: read_parameters_def get_def)

text \<open>The verdict of lines 41 to 45 read off the response of the lookup.\<close>

lemma verdict_of_single:
  "lookup_verdict w t k =
     (case single w t k of
        Inl e \<Rightarrow> Inl e
      | Inr r \<Rightarrow>
          (case reply_error r of
             Some code \<Rightarrow>
               if code \<noteq> ''PGRST116'' then Inl (ResponseError code)
               else Inr (initialized_of (data r))
           | None \<Rightarrow> Inr (initialized_of (data r))))"
  by (simp add: lookup_verdict_def single_def split: option.splits fault.splits)

lemma initialized_of_True: "initialized_of r \<longleftrightarrow> r = Some (Some True)"
  by (cases r rule: initialized_of.cases) simp_all


text \<open>A lookup is sent only after \<open>setSession\<close> has resolved.\<close>

lemma select_after_session:
  assumes "SelectSingle c k \<in> set (trace (activate w opts t))"
  shows "session_rejection w = None"
  using assms
  by (cases rule: activate_paths [of w opts t]) (auto simp: preamble_def)

subsection \<open>The concrete activations\<close>

lemma page_outcome:
  "activate page opts t =
     \<lparr>trace = [CreateClient ''https://xyz.supabase.co'' ''anon'',
               SetSession bare_client ''at'' ''rt'',
               SetError (Some (ReferenceError ''appID'')), SetLoading False],
      store = t\<rparr>"
  using path_unbound [of page _ opts t] read_full_query
  by (simp add: preamble_def session_rejection_def createClient_def)

lemma host_outcome:
  "activate host_page \<lparr>appId = a, initialize = defaultInitialize\<rparr> (map_of []) =
     \<lparr>trace = [CreateClient ''https://xyz.supabase.co'' ''anon'',
               SetSession bare_client ''at'' ''rt'',
               SelectSingle signed_in_client ''agent-chat'',
               Initialize signed_in_client,
               Upsert signed_in_client a,
               SetIsInitialized True,
               SetSupabase signed_in_client,
               SetLoading False],
      store = map_of [(a, Some True)]\<rparr>"
  using path_initialized [of host_page _ "''agent-chat''" "map_of []"
      "\<lparr>appId = a, initialize = defaultInitialize\<rparr>" "map_of []"]
    read_full_query
  by (simp add: preamble_def session_rejection_def client_of_def createClient_def
      lookup_verdict_def defaultInitialize_def)

lemma host_flagged_outcome:
  "activate host_page agent_chat (map_of [(''agent-chat'', Some True)]) =
     \<lparr>trace = [CreateClient ''https://xyz.supabase.co'' ''anon'',
               SetSession bare_client ''at'' ''rt'',
               SelectSingle signed_in_client ''agent-chat'',
               SetIsInitialized True,
               SetSupabase signed_in_client,
               SetLoading False],
      store = map_of [(''agent-chat'', Some True)]\<rparr>"
  using path_already [of host_page _ "''agent-chat''" "map_of [(''agent-chat'', Some True)]"
      agent_chat]
    read_full_query
  by (simp add: preamble_def session_rejection_def client_of_def createClient_def
      lookup_verdict_def)




lemma broken_lookup_outcome:
  "activate broken_lookup opts t =
     \<lparr>trace = [CreateClient ''https://xyz.supabase.co'' ''anon'',
               SetSession bare_client ''at'' ''rt'',
               SelectSingle signed_in_client ''agent-chat'',
               SetError (Some (ResponseError ''42501'')), SetLoading False],
      store = t\<rparr>"
  using path_lookup_fails [of broken_lookup _ "''agent-chat''" t "ResponseError ''42501''" opts]
    read_full_query
  by (simp add: preamble_def session_rejection_def client_of_def createClient_def
      lookup_verdict_def)

lemma failing_upsert_outcome:
  "activate failing_upsert agent_chat (map_of []) =
     \<lparr>trace = [CreateClient ''https://xyz.supabase.co'' ''anon'',
               SetSession bare_client ''at'' ''rt'',
               SelectSingle signed_in_client ''agent-chat'',
               Initialize signed_in_client,
               Upsert signed_in_client ''agent-chat'',
               SetError (Some (ResponseError ''57014'')),
               SetLoading False],
      store = map_of []\<rparr>"
  using path_upsert_fails [of failing_upsert _ "''agent-chat''" "map_of []" agent_chat
      "map_of []" "ErrorReply ''57014''"]
    read_full_query
  by (simp add: preamble_def session_rejection_def client_of_def createClient_def
      lookup_verdict_def defaultInitialize_def)

lemma absent_is_missing:
  assumes "n \<in> {''supabaseUrl'', ''supabaseKey'', ''accessToken'', ''refreshToken''}"
    and "falsy (get q n)"
  shows "read_parameters q = Inl MissingParameters"
  using assms by (auto simp: read_parameters_def Let_def)

lemma no_refresh_outcome:
  "activate host_no_refresh opts t =
     \<lparr>trace = [SetError (Some MissingParameters), SetLoading False], store = t\<rparr>"
  by (rule missing_parameters_outcome) (simp add: read_parameters_def get_def)

lemma empty_access_outcome:
  "activate host_empty_access opts t =
     \<lparr>trace = [SetError (Some MissingParameters), SetLoading False], store = t\<rparr>"
  by (rule missing_parameters_outcome) (simp add: read_parameters_def get_def)

section \<open>Missing parameters\<close>

text \<open>
  C1, as stated: whenever one of the four query parameters is absent, the activation ends
  with the missing-parameters error and the returned client handle is null. The second part
  fails for an activation that follows a successful one of the same hook: the first
  activation publishes the client, the identifier of the app changes and the effect runs
  again on a query string that has lost \<open>refreshToken\<close>; the hook then returns the client
  of the first activation next to the error, since no line resets the cell.
\<close>

theorem stale_client_beside_missing_parameter:
  "get no_refresh_query ''refreshToken'' = None
   \<and> error (settled (settled mount host_page agent_chat (map_of []))
               host_no_refresh notes_app (map_of [(''agent-chat'', Some True)]))
       = Some MissingParameters
   \<and> supabase (settled (settled mount host_page agent_chat (map_of []))
                  host_no_refresh notes_app (map_of [(''agent-chat'', Some True)]))
       = Some signed_in_client"
  using host_outcome [of "''agent-chat''"]
    no_refresh_outcome [of notes_app "map_of [(''agent-chat'', Some True)]"]
  by (simp add: settled_def mount_def get_def)

text \<open>
  C1, amended. When one of the four query parameters \<open>supabaseUrl\<close>, \<open>supabaseKey\<close>,
  \<open>accessToken\<close>, \<open>refreshToken\<close> is absent, the activation ends with the
  missing-parameters error, which is not null, and no call reaches a collaborator: no client
  is constructed, no session assigned, no lookup, no callback, no upsert, and the table is as
  it was. The client handle is left as it was before the activation: null in the first
  activation after the hook mounts, the client of an earlier activation otherwise.
\<close>

theorem missing_parameter_fails:
  assumes "n \<in> {''supabaseUrl'', ''supabaseKey'', ''accessToken'', ''refreshToken''}"
    and "get (query w) n = None"
  shows "error (settled st w opts t) = Some MissingParameters
       \<and> filter is_external (trace (activate w opts t)) = []
       \<and> store (activate w opts t) = t
       \<and> supabase (settled st w opts t) = supabase st
       \<and> supabase (settled mount w opts t) = None"
proof -
  from assms have "read_parameters (query w) = Inl MissingParameters"
    by (intro absent_is_missing [of n]) simp_all
  then have "activate w opts t =
      \<lparr>trace = [SetError (Some MissingParameters), SetLoading False], store = t\<rparr>"
    by (rule missing_parameters_outcome)
  then show ?thesis
    by (simp add: settled_def mount_def)
qed

theorem missing_parameter_fails_witness:
  "get no_refresh_query ''refreshToken'' = None
   \<and> error (settled mount host_no_refresh agent_chat (map_of [])) = Some MissingParameters
   \<and> filter is_external (trace (activate host_no_refresh agent_chat (map_of []))) = []
   \<and> supabase (settled mount host_no_refresh agent_chat (map_of [])) = None"
  using missing_parameter_fails [where n = "''refreshToken''" and w = host_no_refresh
      and st = mount and opts = agent_chat and t = "map_of []"]
  by (simp add: get_def mount_def)

text \<open>
  C10, as stated: a parameter bound to the empty string is treated as an absent one, and
  the activation ends with the missing-parameters error and a null client. The null client
  fails in the same way as for an absent parameter: after a successful activation of the same
  hook, an activation that finds \<open>accessToken\<close> empty returns the earlier client next to
  the error.
\<close>

theorem stale_client_beside_empty_parameter:
  "get empty_access_query ''accessToken'' = Some []
   \<and> error (settled (settled mount host_page agent_chat (map_of []))
               host_empty_access notes_app (map_of [(''agent-chat'', Some True)]))
       = Some MissingParameters
   \<and> supabase (settled (settled mount host_page agent_chat (map_of []))
                  host_empty_access notes_app (map_of [(''agent-chat'', Some True)]))
       = Some signed_in_client"
  using host_outcome [of "''agent-chat''"]
    empty_access_outcome [of notes_app "map_of [(''agent-chat'', Some True)]"]
  by (simp add: settled_def mount_def get_def)

text \<open>
  C10, amended. A parameter that is present in the query string but bound to the empty
  string counts as missing: line 27 tests falsiness, so the activation ends with the
  missing-parameters error and no call reaches a collaborator. The client handle is left as
  it was before the activation: null in the first activation after the hook mounts.
\<close>

theorem empty_parameter_fails:
  assumes "n \<in> {''supabaseUrl'', ''supabaseKey'', ''accessToken'', ''refreshToken''}"
    and "get (query w) n = Some []"
  shows "error (settled st w opts t) = Some MissingParameters
       \<and> filter is_external (trace (activate w opts t)) = []
       \<and> supabase (settled st w opts t) = supabase st
       \<and> supabase (settled mount w opts t) = None"
proof -
  from assms have "read_parameters (query w) = Inl MissingParameters"
    by (intro absent_is_missing [of n]) simp_all
  then have "activate w opts t =
      \<lparr>trace = [SetError (Some MissingParameters), SetLoading False], store = t\<rparr>"
    by (rule missing_parameters_outcome)
  then show ?thesis
    by (simp add: settled_def mount_def)
qed

theorem empty_parameter_fails_witness:
  "get empty_access_query ''accessToken'' = Some []
   \<and> error (settled mount host_empty_access agent_chat (map_of [])) = Some MissingParameters
   \<and> filter is_external (trace (activate host_empty_access agent_chat (map_of []))) = []
   \<and> supabase (settled mount host_empty_access agent_chat (map_of [])) = None"
  using empty_parameter_fails [where n = "''accessToken''" and w = host_empty_access
      and st = mount and opts = agent_chat and t = "map_of []"]
  by (simp add: get_def mount_def)

section \<open>The identifier read by the lookup\<close>

text \<open>
  The key of the lookup is the value of the global \<open>appID\<close>; the option \<open>appId\<close> of the
  caller plays no part in it. Without such a global no activation gets past line 40: no
  lookup is sent, the callback and the upsert are never reached, and neither the client nor
  \<open>isInitialized\<close> is set.
\<close>

lemma lookup_reads_global_binding:
  assumes "SelectSingle c k \<in> set (trace (activate w opts t))"
  shows "globals w ''appID'' = Some k"
  using assms
  by (cases rule: activate_paths [of w opts t]) (auto simp: preamble_def)

lemma unbound_appID_outcome:
  assumes "globals w ''appID'' = None"
  shows "filter is_select (trace (activate w opts t)) = []
       \<and> filter is_callback (trace (activate w opts t)) = []
       \<and> filter is_upsert (trace (activate w opts t)) = []
       \<and> SetIsInitialized True \<notin> set (trace (activate w opts t))
       \<and> supabase (settled st w opts t) = supabase st
       \<and> store (activate w opts t) = t"
  using assms
  by (cases rule: activate_paths [of w opts t]) (auto simp: settled_def preamble_def)

lemma host_reads_foreign_row:
  "filter is_select
     (trace (activate foreign_host agent_chat (map_of [(''other-app'', Some True)])))
   = [SelectSingle signed_in_client ''other-app'']"
  using path_already [of foreign_host _ "''other-app''" "map_of [(''other-app'', Some True)]"
      agent_chat]
    read_full_query
  by (simp add: preamble_def session_rejection_def client_of_def createClient_def
      lookup_verdict_def)

text \<open>
  C2. The claim: with the four parameters present, the lookup reads the row of
  \<open>app_installations\<close> whose key is the caller's \<open>appId\<close>. The code at a page that
  passes the four parameters to the app \<open>agent-chat\<close>, whose row exists: line 40 names
  \<open>appID\<close>, not \<open>appId\<close>; the read throws a \<open>ReferenceError\<close>, no lookup is sent,
  and the activation ends with that error.
\<close>

theorem lookup_never_reads_appId_row:
  "filter is_select (trace (activate page agent_chat (map_of [(''agent-chat'', Some False)]))) = []
   \<and> error (settled mount page agent_chat (map_of [(''agent-chat'', Some False)]))
       = Some (ReferenceError ''appID'')"
  using page_outcome [of agent_chat "map_of [(''agent-chat'', Some False)]"]
  by (simp add: settled_def mount_def)

section \<open>The record found flagged, and the record not found\<close>

text \<open>
  C3. When the four parameters are present and the lookup returns a row flagged
  initialized, the callback is never invoked, no upsert is performed, and the activation
  ends with \<open>isInitialized = true\<close>, whatever state the hook was in before.
\<close>

theorem flagged_row_skips_callback:
  assumes "read_parameters (query w) = Inr cr"
    and "SelectSingle c k \<in> set (trace (activate w opts t))"
    and "single w t k = Inr \<lparr>data = Some (Some True), reply_error = None\<rparr>"
  shows "filter is_callback (trace (activate w opts t)) = []
       \<and> filter is_upsert (trace (activate w opts t)) = []
       \<and> isInitialized (settled st w opts t)"
proof -
  from assms(3) have "lookup_verdict w t k = Inr True"
    by (simp add: verdict_of_single)
  with assms(2) show ?thesis
    by (cases rule: activate_paths [of w opts t])
      (auto simp: settled_def preamble_def)
qed

theorem flagged_row_skips_callback_witness:
  "single host_page (map_of [(''agent-chat'', Some True)]) ''agent-chat''
     = Inr \<lparr>data = Some (Some True), reply_error = None\<rparr>
   \<and> filter is_callback
       (trace (activate host_page agent_chat (map_of [(''agent-chat'', Some True)]))) = []
   \<and> filter is_upsert
       (trace (activate host_page agent_chat (map_of [(''agent-chat'', Some True)]))) = []
   \<and> isInitialized (settled mount host_page agent_chat (map_of [(''agent-chat'', Some True)]))"
  using flagged_row_skips_callback [where w = host_page and cr = full_credentials
      and c = signed_in_client and k = "''agent-chat''" and opts = agent_chat
      and t = "map_of [(''agent-chat'', Some True)]" and st = mount]
    read_full_query host_flagged_outcome
  by (simp add: single_def)




section \<open>Errors after the session is assigned\<close>




text \<open>
  C6. When the lookup fails with an error other than the no-rows sentinel (the request is
  rejected, or its response carries an error whose code is not \<open>PGRST116\<close>), the
  activation ends with that error as its error, whatever state the hook was in before, and
  the callback is never invoked.
\<close>

theorem lookup_failure_surfaces:
  assumes "SelectSingle c k \<in> set (trace (activate w opts t))"
    and "select_fault w = Some f"
    and "lookup_failure f = Some e"
  shows "error (settled st w opts t) = Some e
       \<and> filter is_callback (trace (activate w opts t)) = []"
  using assms
  by (cases rule: activate_paths [of w opts t])
    (auto simp: settled_def preamble_def lookup_verdict_def)

theorem lookup_failure_surfaces_witness:
  "SelectSingle signed_in_client ''agent-chat''
     \<in> set (trace (activate broken_lookup agent_chat (map_of [])))
   \<and> lookup_failure (ErrorReply ''42501'') = Some (ResponseError ''42501'')
   \<and> error (settled mount broken_lookup agent_chat (map_of [])) = Some (ResponseError ''42501'')
   \<and> filter is_callback (trace (activate broken_lookup agent_chat (map_of []))) = []"
  using lookup_failure_surfaces [where c = signed_in_client and k = "''agent-chat''"
      and w = broken_lookup and opts = agent_chat and t = "map_of []"
      and f = "ErrorReply ''42501''" and e = "ResponseError ''42501''" and st = mount]
    broken_lookup_outcome [of agent_chat "map_of []"]
  by (simp add: settled_def mount_def)

section \<open>The flags\<close>

text \<open>
  C7, as stated: in every activation the loading flag starts true and changes to false
  exactly once. It fails for every activation after the first of a mounted hook: the first
  one leaves the flag false, no line sets it back to true, and when the identifier of the
  app changes the effect runs again with the flag false from start to end.
\<close>

theorem later_activation_starts_loaded:
  "\<not> loading (settled mount page agent_chat (map_of []))
   \<and> map loading (states (settled mount page agent_chat (map_of []))
                    (trace (activate page notes_app (map_of []))))
       = [False, False, False, False, False]
   \<and> flips (map loading (states (settled mount page agent_chat (map_of []))
                           (trace (activate page notes_app (map_of []))))) = []"
  using page_outcome [of agent_chat "map_of []"] page_outcome [of notes_app "map_of []"]
  by (simp add: settled_def mount_def)

text \<open>
  C7, amended. In the first activation after the hook mounts, however it ends, the loading
  flag starts true and changes exactly once, from true to false. In every activation
  \<open>setLoading\<close> is called exactly once, with false, so the flag never goes back to true
  and is false at the end; an activation that finds the flag false, as every later
  activation of the same hook does, makes no change.
\<close>

theorem loading_falls_once:
  "loading mount
   \<and> flips (map loading (states mount (trace (activate w opts t)))) = [(True, False)]
   \<and> filter is_setLoading (trace (activate w opts t)) = [SetLoading False]
   \<and> flips (map loading (states st (trace (activate w opts t))))
       = (if loading st then [(True, False)] else [])
   \<and> \<not> loading (settled st w opts t)"
  by (cases rule: activate_paths [of w opts t]; cases "loading st")
    (simp_all add: settled_def mount_def preamble_def)

theorem loading_falls_once_witness:
  "flips (map loading (states mount (trace (activate host_page agent_chat (map_of [])))))
     = [(True, False)]
   \<and> flips (map loading (states (settled mount host_page agent_chat (map_of []))
                           (trace (activate host_page notes_app
                                     (map_of [(''agent-chat'', Some True)])))))
     = []"
  using loading_falls_once [where w = host_page and opts = agent_chat and t = "map_of []"
      and st = mount]
    loading_falls_once [where w = host_page and opts = notes_app
      and t = "map_of [(''agent-chat'', Some True)]"
      and st = "settled mount host_page agent_chat (map_of [])"]
  by simp




section \<open>Activations one after another\<close>

lemma callback_runs_append:
  "callback_runs (xs @ ys) = callback_runs xs + callback_runs ys"
  by (simp add: callback_runs_def)

lemma callback_once_per_activation:
  "callback_runs (trace (activate w opts t)) \<le> 1"
  by (cases rule: activate_paths [of w opts t])
    (simp_all add: callback_runs_def preamble_def)

lemma flagged_verdict:
  assumes "select_fault w \<noteq> Some (ErrorReply ''PGRST116'')" and "t a = Some (Some True)"
  shows "lookup_verdict w t a \<noteq> Inr False"
proof (cases "select_fault w")
  case None
  with assms show ?thesis by (simp add: lookup_verdict_def)
next
  case (Some f)
  with assms show ?thesis
    by (cases f) (auto simp: lookup_verdict_def)
qed

lemma flagged_record_skips_callback:
  assumes "globals w ''appID'' = None \<or> globals w ''appID'' = Some a"
    and "select_fault w \<noteq> Some (ErrorReply ''PGRST116'')"
    and "t a = Some (Some True)"
  shows "callback_runs (trace (activate w opts t)) = 0 \<and> store (activate w opts t) = t"
proof (cases "globals w ''appID''")
  case None
  then show ?thesis
    using unbound_appID_outcome [of w opts t] by (simp add: callback_runs_def)
next
  case (Some k)
  with assms(1) have bound: "globals w ''appID'' = Some a" by simp
  have nf: "lookup_verdict w t a \<noteq> Inr False"
    using assms(2,3) by (rule flagged_verdict [of w t a])
  show ?thesis
    using bound nf
    by (cases rule: activate_paths [of w opts t])
      (simp_all add: callback_runs_def preamble_def)
qed

lemma completed_flags_record:
  assumes "globals w ''appID'' = None \<or> globals w ''appID'' = Some (appId opts)"
    and "SetIsInitialized True \<in> set (trace (activate w opts t))"
  shows "store (activate w opts t) (appId opts) = Some (Some True)"
proof (cases "globals w ''appID''")
  case None
  with assms(2) show ?thesis
    using unbound_appID_outcome [of w opts t] by simp
next
  case (Some k)
  with assms(1) have "globals w ''appID'' = Some (appId opts)" by simp
  with assms(2) show ?thesis
    by (cases rule: activate_paths [of w opts t])
      (auto simp: preamble_def lookup_verdict_def initialized_of_True
         split: option.splits)
qed

lemma flagged_record_never_runs_callback:
  assumes "\<forall>p\<in>set ps. (globals (fst p) ''appID'' = None \<or> globals (fst p) ''appID'' = Some a)
             \<and> select_fault (fst p) \<noteq> Some (ErrorReply ''PGRST116'')"
    and "t a = Some (Some True)"
  shows "callback_runs (run_activations t ps) = 0"
  using assms
proof (induction ps arbitrary: t)
  case Nil
  then show ?case by (simp add: callback_runs_def)
next
  case (Cons p ps)
  from Cons.prems have p: "globals (fst p) ''appID'' = None \<or> globals (fst p) ''appID'' = Some a"
      "select_fault (fst p) \<noteq> Some (ErrorReply ''PGRST116'')"
    by simp_all
  from flagged_record_skips_callback [of "fst p" a t "snd p", OF p Cons.prems(2)]
  have here: "callback_runs (trace (activate (fst p) (snd p) t)) = 0"
    and same: "store (activate (fst p) (snd p) t) = t"
    by simp_all
  from Cons.prems
  have rest: "\<forall>p\<in>set ps. (globals (fst p) ''appID'' = None \<or> globals (fst p) ''appID'' = Some a)
             \<and> select_fault (fst p) \<noteq> Some (ErrorReply ''PGRST116'')"
    by simp
  have "callback_runs (run_activations t ps) = 0"
    using rest Cons.prems(2) by (rule Cons.IH [of t])
  with here same show ?case
    by (simp add: callback_runs_append Let_def)
qed

text \<open>
  C8, as stated: across activations taken one after another, the callback is executed at
  most once in total for an identifier. It fails when an activation runs the callback and
  then fails to persist the flag: here the upsert of the first activation is answered by an
  error, the record stays absent, and the second activation runs the callback again.
\<close>

theorem callback_runs_again_after_failure:
  "callback_runs (run_activations (map_of [])
      [(failing_upsert, agent_chat), (host_page, agent_chat)]) = 2"
  using failing_upsert_outcome host_outcome [of "''agent-chat''"]
  by (simp add: callback_runs_def)

text \<open>
  C8, amended. Take activations for one identifier, one after another, in which a lookup,
  when one is sent, reads the record of that identifier and is not answered with the
  no-rows condition by a fault. Once an activation completes, that is, reaches
  \<open>setIsInitialized(true)\<close>, the callback has been executed at most once in that
  activation and is never executed in a later one. Activations that failed before it (the
  callback threw, the upsert failed) have left the record unflagged and may each have
  executed the callback.
\<close>

theorem callback_never_after_completion:
  assumes "\<forall>p\<in>set (x # xs). appId (snd p) = a
             \<and> (globals (fst p) ''appID'' = None \<or> globals (fst p) ''appID'' = Some a)
             \<and> select_fault (fst p) \<noteq> Some (ErrorReply ''PGRST116'')"
    and "SetIsInitialized True \<in> set (trace (activate (fst x) (snd x) t))"
  shows "callback_runs (trace (activate (fst x) (snd x) t)) \<le> 1
       \<and> callback_runs (run_activations (store (activate (fst x) (snd x) t)) xs) = 0
       \<and> callback_runs (run_activations t (x # xs)) \<le> 1"
proof -
  from assms(1)
  have x: "globals (fst x) ''appID'' = None \<or> globals (fst x) ''appID'' = Some (appId (snd x))"
    and a: "appId (snd x) = a"
    by simp_all
  from completed_flags_record [OF x assms(2)] a
  have flagged: "store (activate (fst x) (snd x) t) a = Some (Some True)"
    by simp
  from assms(1)
  have rest: "\<forall>p\<in>set xs. (globals (fst p) ''appID'' = None \<or> globals (fst p) ''appID'' = Some a)
             \<and> select_fault (fst p) \<noteq> Some (ErrorReply ''PGRST116'')"
    by simp
  have later: "callback_runs (run_activations (store (activate (fst x) (snd x) t)) xs) = 0"
    using rest flagged
    by (rule flagged_record_never_runs_callback [of xs a "store (activate (fst x) (snd x) t)"])
  with callback_once_per_activation [of "fst x" "snd x" t] show ?thesis
    by (simp add: callback_runs_append Let_def)
qed

theorem callback_never_after_completion_witness:
  "SetIsInitialized True \<in> set (trace (activate host_page agent_chat (map_of [])))
   \<and> callback_runs (trace (activate host_page agent_chat (map_of []))) \<le> 1
   \<and> callback_runs (run_activations (store (activate host_page agent_chat (map_of [])))
        [(host_page, agent_chat), (page, agent_chat)]) = 0"
  using callback_never_after_completion [where x = "(host_page, agent_chat)"
      and xs = "[(host_page, agent_chat), (page, agent_chat)]" and a = "''agent-chat''"
      and t = "map_of []"]
    host_outcome [of "''agent-chat''"]
  by simp

end
